theory Spec2Isabelle
  imports Complex_Main "HOL-Library.Sublist"
begin

section \<open>The dual-persistence core of the journal: \<open>ApiService\<close>\<close>

text \<open>
  The development embeds the object \<open>ApiService\<close>: the connectivity probe
  \<open>checkConnection\<close> and the gateway operations \<open>getEntries\<close>,
  \<open>createEntry\<close>, \<open>deleteEntry\<close> and \<open>importEntries\<close> with their local
  helpers. Everything outside the object is environment and appears as an explicit
  argument or as a field of the state:
  \<^item> the answer of the remote store to the one \<open>fetch\<close> an operation issues;
  \<^item> the clock reading \<open>Date.now()\<close>;
  \<^item> the browser's \<open>localStorage\<close>, reduced to the single key \<open>STORAGE_KEY\<close>
    the object ever touches.
  A JavaScript exception is a value \<open>Inl e\<close>; every \<open>try\<close>/\<open>catch\<close> of the
  source is a case distinction on it.
\<close>

subsection \<open>Data model\<close>

datatype Category = Food | Shopping | Culture | Nature | Other

text \<open>
  \<open>Omit<JournalEntry, 'id'>\<close>, the argument of \<open>createEntry\<close>. The coordinates are
  JavaScript numbers that the object only copies and serialises; they are taken to be
  finite, so that serialising and parsing gives them back.
\<close>

record EntryData =
  latitude :: real
  longitude :: real
  timestamp :: string
  dateDisplay :: string
  entry_note :: string
  category :: Category
  photoUrl :: "string option"

text \<open>\<open>JournalEntry\<close>; the fields \<open>id\<close> and \<open>note\<close> are called \<open>entry_id\<close> and \<open>entry_note\<close> here.\<close>

record JournalEntry = EntryData +
  entry_id :: string

text \<open>The object spread \<open>{ ...entry, id: i }\<close>.\<close>

definition with_id :: "EntryData \<Rightarrow> string \<Rightarrow> JournalEntry" where
  "with_id entry i =
     \<lparr>latitude = latitude entry, longitude = longitude entry,
      timestamp = timestamp entry, dateDisplay = dateDisplay entry,
      entry_note = entry_note entry, category = category entry, photoUrl = photoUrl entry,
      entry_id = i\<rparr>"

subsection \<open>Exceptions\<close>

datatype error =
    NetworkError          \<comment> \<open>\<open>fetch\<close> rejects: the remote is unreachable\<close>
  | AbortError            \<comment> \<open>\<open>fetch\<close> rejects: its signal was aborted\<close>
  | HttpError             \<comment> \<open>the \<open>throw new Error(...)\<close> after \<open>!response.ok\<close>\<close>
  | SyntaxError           \<comment> \<open>\<open>JSON.parse\<close> or \<open>response.json()\<close> on text that is not JSON\<close>
  | QuotaExceededError    \<comment> \<open>\<open>localStorage.setItem\<close> refuses the value\<close>

subsection \<open>The on-device mirror: \<open>localStorage\<close> at \<open>STORAGE_KEY\<close>\<close>

text \<open>
  The text stored under the key, identified with what \<open>JSON.parse\<close> makes of it:
  the serialisation of an entry array, the empty string, or text that is not JSON.
  (Text that parses to something else than an array of entries is excluded by the
  type \<open>JournalEntry[]\<close> of the source.)
\<close>

datatype stored = Serialized "JournalEntry list" | EmptyString | Malformed

definition JSON_stringify :: "JournalEntry list \<Rightarrow> stored" where
  "JSON_stringify data = Serialized data"

fun JSON_parse :: "stored \<Rightarrow> error + JournalEntry list" where
  "JSON_parse (Serialized data) = Inr data"
| "JSON_parse EmptyString = Inl SyntaxError"
| "JSON_parse Malformed = Inl SyntaxError"

text \<open>The requests the object can send to the remote store.\<close>

datatype request =
    Ping                      \<comment> \<open>\<open>GET /ping\<close>\<close>
  | ListEntries               \<comment> \<open>\<open>GET /entries\<close>\<close>
  | PostEntry EntryData       \<comment> \<open>\<open>POST /entries\<close> with the entry as body\<close>
  | DeleteById string         \<comment> \<open>\<open>DELETE /entries/<id>\<close>\<close>

text \<open>
  The state an operation runs in: the value under the key (\<open>None\<close> is the
  \<open>null\<close> of \<open>getItem\<close>, the key being absent), which values the browser accepts
  on \<open>setItem\<close> (it throws on the others, as when the quota is exceeded), and the
  requests sent so far, oldest first.
\<close>

record world =
  storage :: "stored option"
  accepts :: "stored \<Rightarrow> bool"
  requests :: "request list"

definition getItem :: "world \<Rightarrow> stored option" where
  "getItem w = storage w"

definition setItem :: "stored \<Rightarrow> world \<Rightarrow> error + world" where
  "setItem v w =
     (if accepts w v then Inr (w\<lparr>storage := Some v\<rparr>) else Inl QuotaExceededError)"

subsection \<open>The remote store, seen through \<open>fetch\<close>\<close>

text \<open>
  What one \<open>fetch\<close> comes to: it rejects, or it resolves to a response with its
  \<open>ok\<close> flag and the value \<open>response.json()\<close> would give (\<open>None\<close> when the body
  is not JSON, so that \<open>response.json()\<close> rejects).
\<close>

datatype 'a fetch_outcome = Rejected | Response bool "'a option"

definition fetch :: "request \<Rightarrow> world \<Rightarrow> world" where
  "fetch req w = w\<lparr>requests := requests w @ [req]\<rparr>"

text \<open>
  The remote failures of the specification, for an operation that reads the body:
  no answer, a non-success status, a body that does not parse.
\<close>

fun remote_failed :: "'a fetch_outcome \<Rightarrow> bool" where
  "remote_failed Rejected = True"
| "remote_failed (Response ok body) = (\<not> ok \<or> body = None)"

subsection \<open>Local storage logic (the fallback)\<close>

definition getLocalEntries :: "world \<Rightarrow> error + JournalEntry list" where
  "getLocalEntries w =
     (case getItem w of
        None \<Rightarrow> Inr []
      | Some stored \<Rightarrow> if stored = EmptyString then Inr [] else JSON_parse stored)"

text \<open>
  The decimal digits of a clock reading (a non-negative integer number of
  milliseconds), as the template literal renders it.
\<close>

definition digit_char :: "nat \<Rightarrow> char" where
  "digit_char d = ''0123456789'' ! d"

fun Number_toString :: "nat \<Rightarrow> string" where
  "Number_toString n =
     (if n < 10 then [digit_char n]
      else Number_toString (n div 10) @ [digit_char (n mod 10)])"

definition LOCAL_PREFIX :: string where
  "LOCAL_PREFIX = ''local-''"

definition createLocalEntry ::
  "EntryData \<Rightarrow> nat \<Rightarrow> world \<Rightarrow> (error + JournalEntry) \<times> world" where
  "createLocalEntry entry now w =
     (let newEntry = with_id entry (LOCAL_PREFIX @ Number_toString now) in
      case getLocalEntries w of
        Inl e \<Rightarrow> (Inl e, w)
      | Inr entries \<Rightarrow>
          (case setItem (JSON_stringify (entries @ [newEntry])) w of
             Inl e \<Rightarrow> (Inl e, w)
           | Inr w' \<Rightarrow> (Inr newEntry, w')))"

definition deleteLocalEntry :: "string \<Rightarrow> world \<Rightarrow> (error + unit) \<times> world" where
  "deleteLocalEntry i w =
     (case getLocalEntries w of
        Inl e \<Rightarrow> (Inl e, w)
      | Inr entries \<Rightarrow>
          (let updated = filter (\<lambda>e. entry_id e \<noteq> i) entries in
           case setItem (JSON_stringify updated) w of
             Inl e \<Rightarrow> (Inl e, w)
           | Inr w' \<Rightarrow> (Inr (), w')))"

definition importEntries :: "JournalEntry list \<Rightarrow> world \<Rightarrow> (error + unit) \<times> world" where
  "importEntries data w =
     (case setItem (JSON_stringify data) w of
        Inl e \<Rightarrow> (Inl e, w)
      | Inr w' \<Rightarrow> (Inr (), w'))"

subsection \<open>The gateway operations\<close>

text \<open>
  Each operation sends its request and then runs its \<open>try\<close> block on the outcome;
  whatever the block throws is caught, and the \<open>catch\<close> block runs in the state the
  block has left (the request sent, the mirror not written).
\<close>

definition getEntries ::
  "JournalEntry list fetch_outcome \<Rightarrow> world \<Rightarrow> (error + JournalEntry list) \<times> world" where
  "getEntries outcome w0 =
     (let w = fetch ListEntries w0;
          attempt =
            (case outcome of
               Rejected \<Rightarrow> Inl NetworkError
             | Response ok body \<Rightarrow>
                 if \<not> ok then Inl HttpError
                 else (case body of
                         None \<Rightarrow> Inl SyntaxError
                       | Some data \<Rightarrow>
                           (case setItem (JSON_stringify data) w of
                              Inl e \<Rightarrow> Inl e
                            | Inr w' \<Rightarrow> Inr (data, w'))))
      in case attempt of
           Inr (data, w') \<Rightarrow> (Inr data, w')
         | Inl _ \<Rightarrow> (getLocalEntries w, w))"

definition createEntry ::
  "EntryData \<Rightarrow> nat \<Rightarrow> JournalEntry fetch_outcome \<Rightarrow> world \<Rightarrow>
     (error + JournalEntry) \<times> world" where
  "createEntry entry now outcome w0 =
     (let w = fetch (PostEntry entry) w0;
          attempt =
            (case outcome of
               Rejected \<Rightarrow> Inl NetworkError
             | Response ok body \<Rightarrow>
                 if \<not> ok then Inl HttpError
                 else (case body of
                         None \<Rightarrow> Inl SyntaxError
                       | Some saved \<Rightarrow>
                           (case getLocalEntries w of
                              Inl e \<Rightarrow> Inl e
                            | Inr local \<Rightarrow>
                                (case setItem (JSON_stringify (local @ [saved])) w of
                                   Inl e \<Rightarrow> Inl e
                                 | Inr w' \<Rightarrow> Inr (saved, w')))))
      in case attempt of
           Inr (saved, w') \<Rightarrow> (Inr saved, w')
         | Inl _ \<Rightarrow> createLocalEntry entry now w)"

text \<open>\<open>deleteEntry\<close> never reads the body of the response.\<close>

definition deleteEntry ::
  "string \<Rightarrow> 'a fetch_outcome \<Rightarrow> world \<Rightarrow> (error + unit) \<times> world" where
  "deleteEntry i outcome w0 =
     (let w = fetch (DeleteById i) w0;
          attempt =
            (case outcome of
               Rejected \<Rightarrow> Inl NetworkError
             | Response ok body \<Rightarrow>
                 if \<not> ok then Inl HttpError
                 else (case getLocalEntries w of
                         Inl e \<Rightarrow> Inl e
                       | Inr local \<Rightarrow>
                           (case setItem
                                   (JSON_stringify (filter (\<lambda>e. entry_id e \<noteq> i) local)) w of
                              Inl e \<Rightarrow> Inl e
                            | Inr w' \<Rightarrow> Inr w')))
      in case attempt of
           Inr w' \<Rightarrow> (Inr (), w')
         | Inl _ \<Rightarrow> deleteLocalEntry i w)"

subsection \<open>The connectivity probe\<close>

text \<open>
  How the health endpoint behaves, in milliseconds after the request: it answers at
  some time with the \<open>ok\<close> flag of its response, the transport fails at some time,
  or nothing ever comes back.
\<close>

datatype probe = Responds nat bool | Fails nat | Silent

text \<open>The delay of \<open>setTimeout(() => controller.abort(), 1200)\<close>.\<close>

definition PROBE_TIMEOUT :: nat where
  "PROBE_TIMEOUT = 1200"

text \<open>
  An event at time \<open>t\<close> comes before a timer of delay \<open>d\<close> when it is earlier, or
  at the same millisecond when the event loop does not run the timer first.
\<close>

definition before_deadline :: "nat \<Rightarrow> bool \<Rightarrow> nat \<Rightarrow> bool" where
  "before_deadline d timer_first t = (t < d \<or> (t = d \<and> \<not> timer_first))"

text \<open>
  \<open>fetch\<close> with the signal of a controller that a timer of delay \<open>d\<close> aborts:
  what the promise settles to, and when. An abort rejects the pending promise at
  once; after the promise has settled the abort has no effect.
\<close>

definition fetch_with_signal :: "nat \<Rightarrow> bool \<Rightarrow> probe \<Rightarrow> (error + bool) \<times> nat" where
  "fetch_with_signal d timer_first p =
     (case p of
        Responds t ok \<Rightarrow>
          if before_deadline d timer_first t then (Inr ok, t) else (Inl AbortError, d)
      | Fails t \<Rightarrow>
          if before_deadline d timer_first t then (Inl NetworkError, t) else (Inl AbortError, d)
      | Silent \<Rightarrow> (Inl AbortError, d))"

text \<open>
  \<open>checkConnection\<close>: the result of the promise, the time it settles at, and the
  state (the request has been sent).
\<close>

definition checkConnection ::
  "bool \<Rightarrow> probe \<Rightarrow> world \<Rightarrow> (error + bool) \<times> nat \<times> world" where
  "checkConnection timer_first p w0 =
     (let w = fetch Ping w0 in
      case fetch_with_signal PROBE_TIMEOUT timer_first p of
        (Inr ok, t) \<Rightarrow> (Inr ok, t, w)
      | (Inl _, t) \<Rightarrow> (Inr False, t, w))"

subsection \<open>Sample data\<close>

definition park_walk :: JournalEntry where
  "park_walk =
     \<lparr>latitude = 51.4778, longitude = -0.0015,
      timestamp = ''2024-05-01T10:00:00.000Z'', dateDisplay = ''May 1, 2024, 10:00 AM'',
      entry_note = ''Park walk'', category = Nature, photoUrl = None,
      entry_id = ''1''\<rparr>"

definition new_spot :: EntryData where
  "new_spot =
     \<lparr>latitude = 48.8584, longitude = 2.2945,
      timestamp = ''2024-05-02T09:30:00.000Z'', dateDisplay = ''May 2, 2024, 9:30 AM'',
      entry_note = ''New spot'', category = Culture,
      photoUrl = Some ''data:image/png;base64,AAAA''\<rparr>"

definition market :: EntryData where
  "market =
     \<lparr>latitude = 41.3826, longitude = 2.1722,
      timestamp = ''2024-05-03T12:15:00.000Z'', dateDisplay = ''May 3, 2024, 12:15 PM'',
      entry_note = ''Market lunch'', category = Food, photoUrl = None\<rparr>"

text \<open>A clock reading, in milliseconds since the epoch.\<close>

definition sample_clock :: nat where
  "sample_clock = 1700000000000"

text \<open>A browser that stores every value, one that stores none, and one that refuses
  exactly one value.\<close>

definition accept_all :: "stored \<Rightarrow> bool" where
  "accept_all v = True"

definition accept_none :: "stored \<Rightarrow> bool" where
  "accept_none v = False"

definition accept_all_but :: "stored \<Rightarrow> stored \<Rightarrow> bool" where
  "accept_all_but refused v = (v \<noteq> refused)"

text \<open>A state with the given value under the key and no request sent yet.\<close>

definition initial :: "stored option \<Rightarrow> (stored \<Rightarrow> bool) \<Rightarrow> world" where
  "initial v acc = \<lparr>storage = v, accepts = acc, requests = []\<rparr>"

subsection \<open>Decimal rendering is injective\<close>

declare Number_toString.simps [simp del]

definition char_digit :: "char \<Rightarrow> nat" where
  "char_digit c = length (takeWhile (\<lambda>d. d \<noteq> c) ''0123456789'')"

definition digits_value :: "string \<Rightarrow> nat" where
  "digits_value s = foldl (\<lambda>a c. 10 * a + char_digit c) 0 s"

lemma digits_value_snoc: "digits_value (s @ [c]) = 10 * digits_value s + char_digit c"
  by (simp add: digits_value_def)

lemma char_digit_digit_char: "d < 10 \<Longrightarrow> char_digit (digit_char d) = d"
proof -
  assume "d < 10"
  then have "d = 0 \<or> d = 1 \<or> d = 2 \<or> d = 3 \<or> d = 4 \<or> d = 5 \<or> d = 6 \<or> d = 7 \<or> d = 8 \<or> d = 9"
    by arith
  then show ?thesis
    by (elim disjE) (simp_all add: char_digit_def digit_char_def)
qed

lemma digits_value_toString: "digits_value (Number_toString n) = n"
proof (induction n rule: Number_toString.induct)
  case (1 n)
  show ?case
  proof (cases "n < 10")
    case True
    then show ?thesis
      by (simp add: Number_toString.simps [of n] digits_value_def char_digit_digit_char)
  next
    case False
    have "digits_value (Number_toString n) =
            10 * digits_value (Number_toString (n div 10)) + char_digit (digit_char (n mod 10))"
      using False by (simp add: Number_toString.simps [of n] digits_value_snoc)
    also have "\<dots> = 10 * (n div 10) + n mod 10"
      using "1.IH" [OF False] by (simp add: char_digit_digit_char)
    finally show ?thesis by simp
  qed
qed

lemma Number_toString_inj: "Number_toString m = Number_toString n \<Longrightarrow> m = n"
proof -
  assume "Number_toString m = Number_toString n"
  then have "digits_value (Number_toString m) = digits_value (Number_toString n)"
    by (rule arg_cong)
  then show "m = n"
    by (simp only: digits_value_toString)
qed

lemma local_id_sample:
  "LOCAL_PREFIX @ Number_toString sample_clock = ''local-1700000000000''"
  by (simp add: LOCAL_PREFIX_def sample_clock_def Number_toString.simps digit_char_def)

section \<open>What each branch of an operation does\<close>

text \<open>
  Sending a request changes only the request log. The remaining lemmas give, for
  every operation, its result and final state on each path through its \<open>try\<close> and
  \<open>catch\<close> blocks.
\<close>

lemma storage_fetch [simp]: "storage (fetch req w) = storage w"
  by (simp add: fetch_def)

lemma accepts_fetch [simp]: "accepts (fetch req w) = accepts w"
  by (simp add: fetch_def)

lemma requests_fetch [simp]: "requests (fetch req w) = requests w @ [req]"
  by (simp add: fetch_def)

lemma getLocalEntries_fetch [simp]: "getLocalEntries (fetch req w) = getLocalEntries w"
  by (simp add: getLocalEntries_def getItem_def fetch_def)

lemma getLocalEntries_stored [simp]:
  "getLocalEntries (w\<lparr>storage := Some (Serialized xs)\<rparr>) = Inr xs"
  by (simp add: getLocalEntries_def getItem_def)

lemma getLocalEntries_cases:
  "getLocalEntries w =
     (case storage w of
        None \<Rightarrow> Inr []
      | Some (Serialized xs) \<Rightarrow> Inr xs
      | Some EmptyString \<Rightarrow> Inr []
      | Some Malformed \<Rightarrow> Inl SyntaxError)"
  by (simp add: getLocalEntries_def getItem_def split: option.split stored.split)

lemma getEntries_written:
  "accepts w (JSON_stringify E) \<Longrightarrow>
   getEntries (Response True (Some E)) w =
     (Inr E, (fetch ListEntries w)\<lparr>storage := Some (JSON_stringify E)\<rparr>)"
  by (simp add: getEntries_def Let_def setItem_def)

lemma getEntries_refused:
  "\<not> accepts w (JSON_stringify E) \<Longrightarrow>
   getEntries (Response True (Some E)) w = (getLocalEntries w, fetch ListEntries w)"
  by (simp add: getEntries_def Let_def setItem_def)

lemma getEntries_fallback:
  "remote_failed outcome \<Longrightarrow>
   getEntries outcome w = (getLocalEntries w, fetch ListEntries w)"
  by (cases outcome) (auto simp add: getEntries_def Let_def)

lemma createLocalEntry_persisted:
  "getLocalEntries w = Inr xs \<Longrightarrow>
   accepts w (JSON_stringify (xs @ [with_id e (LOCAL_PREFIX @ Number_toString now)])) \<Longrightarrow>
   createLocalEntry e now w =
     (Inr (with_id e (LOCAL_PREFIX @ Number_toString now)),
      w\<lparr>storage := Some (JSON_stringify (xs @ [with_id e (LOCAL_PREFIX @ Number_toString now)]))\<rparr>)"
  by (simp add: createLocalEntry_def Let_def setItem_def)

lemma createLocalEntry_refused:
  "getLocalEntries w = Inr xs \<Longrightarrow>
   \<not> accepts w (JSON_stringify (xs @ [with_id e (LOCAL_PREFIX @ Number_toString now)])) \<Longrightarrow>
   createLocalEntry e now w = (Inl QuotaExceededError, w)"
  by (simp add: createLocalEntry_def Let_def setItem_def)

lemma createLocalEntry_unreadable:
  "getLocalEntries w = Inl err \<Longrightarrow> createLocalEntry e now w = (Inl err, w)"
  by (simp add: createLocalEntry_def Let_def)

lemma createEntry_fallback:
  "remote_failed outcome \<Longrightarrow>
   createEntry e now outcome w = createLocalEntry e now (fetch (PostEntry e) w)"
  by (cases outcome) (auto simp add: createEntry_def Let_def)

lemma createEntry_written:
  "getLocalEntries w = Inr xs \<Longrightarrow> accepts w (JSON_stringify (xs @ [saved])) \<Longrightarrow>
   createEntry e now (Response True (Some saved)) w =
     (Inr saved, (fetch (PostEntry e) w)\<lparr>storage := Some (JSON_stringify (xs @ [saved]))\<rparr>)"
  by (simp add: createEntry_def Let_def setItem_def)

lemma createEntry_unreadable:
  "getLocalEntries w = Inl err \<Longrightarrow>
   createEntry e now (Response True (Some saved)) w =
     createLocalEntry e now (fetch (PostEntry e) w)"
  by (simp add: createEntry_def Let_def)

lemma createEntry_refused:
  "getLocalEntries w = Inr xs \<Longrightarrow> \<not> accepts w (JSON_stringify (xs @ [saved])) \<Longrightarrow>
   createEntry e now (Response True (Some saved)) w =
     createLocalEntry e now (fetch (PostEntry e) w)"
  by (simp add: createEntry_def Let_def setItem_def)

lemma deleteLocalEntry_persisted:
  "getLocalEntries w = Inr xs \<Longrightarrow>
   accepts w (JSON_stringify (filter (\<lambda>e. entry_id e \<noteq> i) xs)) \<Longrightarrow>
   deleteLocalEntry i w =
     (Inr (), w\<lparr>storage := Some (JSON_stringify (filter (\<lambda>e. entry_id e \<noteq> i) xs))\<rparr>)"
  by (simp add: deleteLocalEntry_def Let_def setItem_def)

lemma deleteLocalEntry_unreadable:
  "getLocalEntries w = Inl err \<Longrightarrow> deleteLocalEntry i w = (Inl err, w)"
  by (simp add: deleteLocalEntry_def)

lemma deleteLocalEntry_refused:
  "getLocalEntries w = Inr xs \<Longrightarrow>
   \<not> accepts w (JSON_stringify (filter (\<lambda>e. entry_id e \<noteq> i) xs)) \<Longrightarrow>
   deleteLocalEntry i w = (Inl QuotaExceededError, w)"
  by (simp add: deleteLocalEntry_def Let_def setItem_def)

lemma deleteEntry_persisted:
  "getLocalEntries w = Inr xs \<Longrightarrow>
   accepts w (JSON_stringify (filter (\<lambda>e. entry_id e \<noteq> i) xs)) \<Longrightarrow>
   deleteEntry i outcome w =
     (Inr (), (fetch (DeleteById i) w)
                \<lparr>storage := Some (JSON_stringify (filter (\<lambda>e. entry_id e \<noteq> i) xs))\<rparr>)"
  by (cases outcome)
     (simp_all add: deleteEntry_def Let_def setItem_def deleteLocalEntry_persisted)

lemma deleteEntry_unreadable:
  "getLocalEntries w = Inl err \<Longrightarrow>
   deleteEntry i outcome w = (Inl err, fetch (DeleteById i) w)"
  by (cases outcome) (simp_all add: deleteEntry_def Let_def deleteLocalEntry_unreadable)

lemma deleteEntry_refused:
  "getLocalEntries w = Inr xs \<Longrightarrow>
   \<not> accepts w (JSON_stringify (filter (\<lambda>e. entry_id e \<noteq> i) xs)) \<Longrightarrow>
   deleteEntry i outcome w = (Inl QuotaExceededError, fetch (DeleteById i) w)"
  by (cases outcome)
     (simp_all add: deleteEntry_def Let_def setItem_def deleteLocalEntry_refused)

lemma importEntries_persisted:
  "accepts w (JSON_stringify xs) \<Longrightarrow>
   importEntries xs w = (Inr (), w\<lparr>storage := Some (JSON_stringify xs)\<rparr>)"
  by (simp add: importEntries_def setItem_def)

lemma importEntries_refused:
  "\<not> accepts w (JSON_stringify xs) \<Longrightarrow> importEntries xs w = (Inl QuotaExceededError, w)"
  by (simp add: importEntries_def setItem_def)

lemma getLocalEntries_stringify [simp]:
  "getLocalEntries (w\<lparr>storage := Some (JSON_stringify xs)\<rparr>) = Inr xs"
  by (simp add: JSON_stringify_def)

lemma entry_id_with_id [simp]: "entry_id (with_id e i) = i"
  by (simp add: with_id_def)

lemma with_id_neq: "i \<noteq> j \<Longrightarrow> with_id e i \<noteq> with_id e j"
  by (simp add: with_id_def)

section \<open>The claims\<close>

subsection \<open>C1: listing with a reachable remote\<close>

text \<open>
  C1, as the specification states it: for every reachable remote returning the entry
  collection \<open>E\<close>, \<open>getEntries\<close> returns \<open>E\<close> and the mirror afterwards holds
  exactly \<open>E\<close>, whatever it held before. This fails when the browser refuses the
  write of the mirror: \<open>setItem\<close> throws inside the \<open>try\<close> block, the \<open>catch\<close>
  block runs, and the old content of the mirror is returned and kept. Below, the
  remote returns two entries, the mirror holds a third one and the browser stores
  nothing: the third entry is returned, and it is still what the mirror holds.
\<close>

theorem C1_list_write_refused_counterexample:
  "fst (getEntries (Response True (Some [park_walk, with_id new_spot ''2'']))
          (initial (Some (Serialized [with_id market ''3''])) accept_none))
     = Inr [with_id market ''3''] \<and>
   [with_id market ''3''] \<noteq> [park_walk, with_id new_spot ''2''] \<and>
   getLocalEntries
     (snd (getEntries (Response True (Some [park_walk, with_id new_spot ''2'']))
             (initial (Some (Serialized [with_id market ''3''])) accept_none)))
     = Inr [with_id market ''3'']"
  by (simp add: getEntries_refused initial_def accept_none_def getLocalEntries_cases)

text \<open>
  C1, amended: for every reachable remote returning the entry collection \<open>E\<close> and
  every state in which the browser accepts the serialised \<open>E\<close>, \<open>getEntries\<close>
  returns \<open>E\<close>, and afterwards the mirror holds the serialised \<open>E\<close> and reads back
  as exactly \<open>E\<close>, whatever it held before (absent, malformed, or other entries,
  locally minted ones included).
\<close>

theorem C1_list_overwrites_mirror:
  assumes "accepts w (JSON_stringify E)"
  shows "fst (getEntries (Response True (Some E)) w) = Inr E \<and>
         getLocalEntries (snd (getEntries (Response True (Some E)) w)) = Inr E \<and>
         storage (snd (getEntries (Response True (Some E)) w)) = Some (JSON_stringify E)"
  using assms by (simp add: getEntries_written)

theorem C1_list_overwrites_mirror_witness:
  "accepts (initial (Some (Serialized [with_id market ''local-1700000000000''])) accept_all)
     (JSON_stringify [park_walk, with_id new_spot ''2'']) \<and>
   fst (getEntries (Response True (Some [park_walk, with_id new_spot ''2'']))
          (initial (Some (Serialized [with_id market ''local-1700000000000''])) accept_all))
     = Inr [park_walk, with_id new_spot ''2''] \<and>
   getLocalEntries
     (snd (getEntries (Response True (Some [park_walk, with_id new_spot ''2'']))
             (initial (Some (Serialized [with_id market ''local-1700000000000''])) accept_all)))
     = Inr [park_walk, with_id new_spot ''2'']"
  using C1_list_overwrites_mirror
    [of "initial (Some (Serialized [with_id market ''local-1700000000000''])) accept_all"
        "[park_walk, with_id new_spot ''2'']"]
  by (simp add: initial_def accept_all_def)

subsection \<open>C2: creating with an unreachable remote\<close>

text \<open>
  C2, as the specification states it: for every entry and unreachable remote,
  \<open>createEntry\<close> synthesises a locally-unique id derived from the current time with
  the local-origin prefix, appends the entry to the mirror, persists it and returns
  it. Two things fail. The id is the prefix followed by the clock reading and is not
  compared with the ids in the mirror: two entries created at the same clock reading
  get the same id (the first three facts below: the second call returns the id the
  first call has put in the mirror). And the fallback is not guarded: when the browser
  refuses the write, \<open>createEntry\<close> raises and returns no entry (the last fact).
\<close>

theorem C2_create_offline_counterexample:
  "fst (createEntry market sample_clock Rejected
          (snd (createEntry new_spot sample_clock Rejected (initial None accept_all))))
     = Inr (with_id market ''local-1700000000000'') \<and>
   getLocalEntries
     (snd (createEntry market sample_clock Rejected
             (snd (createEntry new_spot sample_clock Rejected (initial None accept_all)))))
     = Inr [with_id new_spot ''local-1700000000000'', with_id market ''local-1700000000000''] \<and>
   \<not> distinct (map entry_id
         [with_id new_spot ''local-1700000000000'', with_id market ''local-1700000000000'']) \<and>
   fst (createEntry new_spot sample_clock Rejected (initial None accept_none))
     = Inl QuotaExceededError"
proof -
  let ?w0 = "initial None accept_all"
  let ?a = "with_id new_spot ''local-1700000000000''"
  let ?b = "with_id market ''local-1700000000000''"
  have r0: "getLocalEntries (fetch (PostEntry new_spot) ?w0) = Inr []"
    by (simp add: getLocalEntries_cases initial_def)
  have first: "createEntry new_spot sample_clock Rejected ?w0 =
      (Inr ?a, (fetch (PostEntry new_spot) ?w0)\<lparr>storage := Some (JSON_stringify [?a])\<rparr>)"
    using createLocalEntry_persisted [OF r0, of new_spot sample_clock]
    by (simp add: createEntry_fallback local_id_sample initial_def accept_all_def)
  let ?w1 = "(fetch (PostEntry new_spot) ?w0)\<lparr>storage := Some (JSON_stringify [?a])\<rparr>"
  have r1: "getLocalEntries (fetch (PostEntry market) ?w1) = Inr [?a]"
    by simp
  have second: "createEntry market sample_clock Rejected ?w1 =
      (Inr ?b, (fetch (PostEntry market) ?w1)\<lparr>storage := Some (JSON_stringify [?a, ?b])\<rparr>)"
    using createLocalEntry_persisted [OF r1, of market sample_clock]
    by (simp add: createEntry_fallback local_id_sample initial_def accept_all_def)
  have r2: "getLocalEntries (fetch (PostEntry new_spot) (initial None accept_none)) = Inr []"
    by (simp add: getLocalEntries_cases initial_def)
  have third: "createEntry new_spot sample_clock Rejected (initial None accept_none) =
      (Inl QuotaExceededError, fetch (PostEntry new_spot) (initial None accept_none))"
    using createLocalEntry_refused [OF r2, of new_spot sample_clock]
    by (simp add: createEntry_fallback initial_def accept_none_def)
  show ?thesis
    by (simp add: first second third)
qed

text \<open>
  C2, amended: for every entry \<open>e\<close>, every remote failure (no answer, a
  non-success status, a body that does not parse) and every state whose mirror is
  readable with content \<open>xs\<close> and whose browser accepts the new value,
  \<open>createEntry\<close> returns \<open>e\<close> with the id made of the local-origin prefix
  followed by the decimal clock reading, and the mirror afterwards holds \<open>xs\<close> with
  that entry appended. The id carries the prefix, and it is the id of exactly one clock
  reading: ids minted at different clock readings differ. Nothing is promised about
  the ids already in the mirror.
\<close>

theorem C2_create_offline_mints_local_entry:
  assumes "remote_failed outcome"
    and "getLocalEntries w = Inr xs"
    and "accepts w (JSON_stringify (xs @ [with_id e (LOCAL_PREFIX @ Number_toString now)]))"
  shows "fst (createEntry e now outcome w) = Inr (with_id e (LOCAL_PREFIX @ Number_toString now)) \<and>
         getLocalEntries (snd (createEntry e now outcome w))
           = Inr (xs @ [with_id e (LOCAL_PREFIX @ Number_toString now)]) \<and>
         storage (snd (createEntry e now outcome w))
           = Some (JSON_stringify (xs @ [with_id e (LOCAL_PREFIX @ Number_toString now)])) \<and>
         prefix LOCAL_PREFIX (entry_id (with_id e (LOCAL_PREFIX @ Number_toString now))) \<and>
         (\<forall>now'. (entry_id (with_id e (LOCAL_PREFIX @ Number_toString now))
                    = LOCAL_PREFIX @ Number_toString now') = (now = now'))"
proof -
  have "createEntry e now outcome w =
      (Inr (with_id e (LOCAL_PREFIX @ Number_toString now)),
       (fetch (PostEntry e) w)
         \<lparr>storage := Some (JSON_stringify (xs @ [with_id e (LOCAL_PREFIX @ Number_toString now)]))\<rparr>)"
    using assms by (simp add: createEntry_fallback createLocalEntry_persisted)
  moreover have "entry_id (with_id e i) = i" for i
    by (simp add: with_id_def)
  moreover have "(Number_toString now = Number_toString now') = (now = now')" for now'
    using Number_toString_inj by blast
  ultimately show ?thesis
    by simp
qed

theorem C2_create_offline_mints_local_entry_witness:
  "remote_failed (Response False (Some park_walk)) \<and>
   getLocalEntries (initial (Some (Serialized [park_walk])) accept_all) = Inr [park_walk] \<and>
   fst (createEntry new_spot sample_clock (Response False (Some park_walk))
          (initial (Some (Serialized [park_walk])) accept_all))
     = Inr (with_id new_spot ''local-1700000000000'') \<and>
   getLocalEntries
     (snd (createEntry new_spot sample_clock (Response False (Some park_walk))
          (initial (Some (Serialized [park_walk])) accept_all)))
     = Inr [park_walk, with_id new_spot ''local-1700000000000'']"
  using C2_create_offline_mints_local_entry [of "Response False (Some park_walk)"
      "initial (Some (Serialized [park_walk])) accept_all" "[park_walk]" new_spot sample_clock]
  by (simp add: local_id_sample getLocalEntries_cases initial_def accept_all_def
        JSON_stringify_def)

subsection \<open>C3: the connectivity probe\<close>

text \<open>
  C3: \<open>checkConnection\<close> never raises; it returns true if and only if the health
  endpoint answers with success before the timer of 1200 milliseconds aborts the
  request (a transport error, a non-success answer, an answer that comes too late and
  no answer at all give false); and its promise settles no later than the timeout,
  also when the remote never answers.
\<close>

theorem C3_probe_true_iff_timely_success:
  "\<exists>b. fst (checkConnection timer_first p w) = Inr b \<and>
       b = (\<exists>t. p = Responds t True \<and> before_deadline PROBE_TIMEOUT timer_first t) \<and>
       fst (snd (checkConnection timer_first p w)) \<le> PROBE_TIMEOUT \<and>
       PROBE_TIMEOUT = 1200"
  by (cases p)
     (auto simp add: checkConnection_def fetch_with_signal_def Let_def before_deadline_def
        PROBE_TIMEOUT_def)

theorem C3_probe_true_iff_timely_success_witness:
  "fst (checkConnection True (Responds 80 True) (initial None accept_all)) = Inr True \<and>
   fst (checkConnection True (Responds 80 False) (initial None accept_all)) = Inr False \<and>
   fst (checkConnection True (Responds 5000 True) (initial None accept_all)) = Inr False \<and>
   fst (checkConnection True (Fails 3) (initial None accept_all)) = Inr False \<and>
   fst (checkConnection True Silent (initial None accept_all)) = Inr False \<and>
   fst (snd (checkConnection True Silent (initial None accept_all))) = 1200"
  using C3_probe_true_iff_timely_success [of True "Responds 80 True" "initial None accept_all"]
  by (simp add: checkConnection_def fetch_with_signal_def Let_def before_deadline_def
        PROBE_TIMEOUT_def)

subsection \<open>C4: listing with a failing remote\<close>

text \<open>
  C4, as the specification states it: for every remote failure and every state of the
  mirror, \<open>getEntries\<close> returns the content of the mirror, leaves it unchanged and
  never raises. The read of the mirror happens in the \<open>catch\<close> block, where nothing
  guards it: when the text under the key is not JSON, \<open>JSON.parse\<close> throws and
  \<open>getEntries\<close> raises.
\<close>

theorem C4_list_malformed_mirror_counterexample:
  "fst (getEntries Rejected (initial (Some Malformed) accept_all)) = Inl SyntaxError"
  by (simp add: getEntries_fallback getLocalEntries_cases initial_def)

text \<open>
  C4, amended: for every remote failure and every state whose mirror is absent, empty
  or the serialisation of a collection, \<open>getEntries\<close> raises nothing and returns the
  content of the mirror (the empty sequence for an absent or empty mirror); the state
  afterwards differs from the state before by the request sent only, so the mirror is
  unchanged.
\<close>

theorem C4_list_fallback_returns_mirror:
  assumes "remote_failed outcome" and "storage w \<noteq> Some Malformed"
  shows "fst (getEntries outcome w)
           = Inr (case storage w of Some (Serialized xs) \<Rightarrow> xs | _ \<Rightarrow> []) \<and>
         snd (getEntries outcome w) = fetch ListEntries w \<and>
         storage (snd (getEntries outcome w)) = storage w"
  using assms
  by (simp add: getEntries_fallback getLocalEntries_cases split: option.split stored.split)

theorem C4_list_fallback_returns_mirror_witness:
  "remote_failed (Response False (None :: JournalEntry list option)) \<and>
   storage (initial (Some (Serialized [park_walk])) accept_all) \<noteq> Some Malformed \<and>
   fst (getEntries (Response False None) (initial (Some (Serialized [park_walk])) accept_all))
     = Inr [park_walk] \<and>
   storage (snd (getEntries (Response False None)
       (initial (Some (Serialized [park_walk])) accept_all))) = Some (Serialized [park_walk]) \<and>
   fst (getEntries Rejected (initial None accept_all)) = Inr [] \<and>
   fst (getEntries Rejected (initial (Some (Serialized [])) accept_all)) = Inr []"
  using C4_list_fallback_returns_mirror
      [of "Response False None" "initial (Some (Serialized [park_walk])) accept_all"]
    C4_list_fallback_returns_mirror [of Rejected "initial None accept_all"]
    C4_list_fallback_returns_mirror [of Rejected "initial (Some (Serialized [])) accept_all"]
  by (simp add: initial_def)

subsection \<open>C5: what deleting leaves in the mirror\<close>

text \<open>
  C5, as the specification states it: for every id and every state of the mirror,
  reachable remote or not, \<open>deleteEntry\<close> removes the entry with that id and
  leaves the others untouched and in order, and deleting an id the mirror does not
  hold changes nothing and does not raise. \<open>deleteEntry\<close> raises when the mirror
  cannot be read (on both paths: the \<open>catch\<close> block reads it again), and when the
  browser refuses the write (here with an absent mirror, which holds no id at all).
\<close>

theorem C5_delete_raises_counterexample:
  "fst (deleteEntry ''1'' (Response True (None :: unit option))
          (initial (Some Malformed) accept_all)) = Inl SyntaxError \<and>
   fst (deleteEntry ''1'' (Rejected :: unit fetch_outcome)
          (initial (Some Malformed) accept_all)) = Inl SyntaxError \<and>
   fst (deleteEntry ''2'' (Rejected :: unit fetch_outcome)
          (initial None accept_none)) = Inl QuotaExceededError"
proof -
  have "getLocalEntries (initial (Some Malformed) accept_all) = Inl SyntaxError"
    by (simp add: getLocalEntries_cases initial_def)
  moreover have "getLocalEntries (initial None accept_none) = Inr []"
    by (simp add: getLocalEntries_cases initial_def)
  moreover have "\<not> accepts (initial None accept_none) v" for v
    by (simp add: initial_def accept_none_def)
  ultimately show ?thesis
    by (simp add: deleteEntry_unreadable deleteEntry_refused)
qed

text \<open>
  C5, amended: for every id, every outcome of the remote request and every state whose
  mirror is readable with content \<open>xs\<close> and whose browser accepts the rewritten
  value, \<open>deleteEntry\<close> raises nothing and leaves in the mirror the entries of
  \<open>xs\<close> whose id differs from the given one, in their order in \<open>xs\<close>; when no
  entry of \<open>xs\<close> has the id, the mirror reads back as \<open>xs\<close>.
\<close>

theorem C5_delete_frame:
  assumes "getLocalEntries w = Inr xs"
    and "accepts w (JSON_stringify (filter (\<lambda>e. entry_id e \<noteq> i) xs))"
  shows "fst (deleteEntry i outcome w) = Inr () \<and>
         getLocalEntries (snd (deleteEntry i outcome w))
           = Inr (filter (\<lambda>e. entry_id e \<noteq> i) xs) \<and>
         (i \<notin> entry_id ` set xs \<longrightarrow> getLocalEntries (snd (deleteEntry i outcome w)) = Inr xs)"
proof -
  have "i \<notin> entry_id ` set xs \<Longrightarrow> filter (\<lambda>e. entry_id e \<noteq> i) xs = xs"
    by (induction xs) auto
  then show ?thesis
    using assms by (auto simp add: deleteEntry_persisted)
qed

theorem C5_delete_frame_witness:
  "getLocalEntries (initial (Some (Serialized [with_id market ''3'', park_walk, with_id new_spot ''2''])) accept_all)
     = Inr [with_id market ''3'', park_walk, with_id new_spot ''2''] \<and>
   fst (deleteEntry ''1'' (Rejected :: unit fetch_outcome)
     (initial (Some (Serialized [with_id market ''3'', park_walk, with_id new_spot ''2''])) accept_all)) = Inr () \<and>
   getLocalEntries (snd (deleteEntry ''1'' (Rejected :: unit fetch_outcome)
     (initial (Some (Serialized [with_id market ''3'', park_walk, with_id new_spot ''2''])) accept_all)))
     = Inr [with_id market ''3'', with_id new_spot ''2''] \<and>
   ''4'' \<notin> entry_id ` set [with_id market ''3'', park_walk, with_id new_spot ''2''] \<and>
   getLocalEntries (snd (deleteEntry ''4'' (Response True (Some ()))
     (initial (Some (Serialized [with_id market ''3'', park_walk, with_id new_spot ''2''])) accept_all)))
     = Inr [with_id market ''3'', park_walk, with_id new_spot ''2'']"
  using C5_delete_frame [of "initial (Some (Serialized [with_id market ''3'', park_walk, with_id new_spot ''2''])) accept_all"
      "[with_id market ''3'', park_walk, with_id new_spot ''2'']" "''1''" "Rejected :: unit fetch_outcome"]
    C5_delete_frame [of "initial (Some (Serialized [with_id market ''3'', park_walk, with_id new_spot ''2''])) accept_all"
      "[with_id market ''3'', park_walk, with_id new_spot ''2'']" "''4''" "Response True (Some ())"]
  by (simp add: getLocalEntries_cases initial_def accept_all_def park_walk_def)

subsection \<open>C6: creating with a reachable remote\<close>

text \<open>
  C6, as the specification states it: for every entry and reachable remote that
  accepts it and returns it with an assigned id, \<open>createEntry\<close> returns the
  remote-issued entry and appends it to the mirror. The update of the mirror sits in
  the \<open>try\<close> block. When the browser refuses the value with the remote-issued entry
  appended, the \<open>catch\<close> block creates a local entry instead (the first three
  facts: the remote answers with id 42, the caller gets a local id, and the mirror
  holds the local entry). When the mirror cannot be read, \<open>createEntry\<close> raises
  (the last fact).
\<close>

theorem C6_create_online_counterexample:
  "fst (createEntry new_spot sample_clock (Response True (Some (with_id new_spot ''42'')))
          (initial (Some (Serialized [park_walk]))
             (accept_all_but (Serialized [park_walk, with_id new_spot ''42'']))))
     = Inr (with_id new_spot ''local-1700000000000'') \<and>
   with_id new_spot ''local-1700000000000'' \<noteq> with_id new_spot ''42'' \<and>
   getLocalEntries
     (snd (createEntry new_spot sample_clock (Response True (Some (with_id new_spot ''42'')))
          (initial (Some (Serialized [park_walk]))
             (accept_all_but (Serialized [park_walk, with_id new_spot ''42''])))))
     = Inr [park_walk, with_id new_spot ''local-1700000000000''] \<and>
   fst (createEntry new_spot sample_clock (Response True (Some (with_id new_spot ''42'')))
          (initial (Some Malformed) accept_all))
     = Inl SyntaxError"
proof -
  let ?saved = "with_id new_spot ''42''"
  let ?w = "initial (Some (Serialized [park_walk])) (accept_all_but (Serialized [park_walk, ?saved]))"
  have differ: "with_id new_spot ''local-1700000000000'' \<noteq> ?saved"
    by (rule with_id_neq) simp
  have r: "getLocalEntries ?w = Inr [park_walk]"
    by (simp add: getLocalEntries_cases initial_def)
  have no: "\<not> accepts ?w (JSON_stringify ([park_walk] @ [?saved]))"
    by (simp add: initial_def accept_all_but_def JSON_stringify_def)
  have r': "getLocalEntries (fetch (PostEntry new_spot) ?w) = Inr [park_walk]"
    using r by simp
  have yes: "accepts (fetch (PostEntry new_spot) ?w)
      (JSON_stringify ([park_walk] @ [with_id new_spot (LOCAL_PREFIX @ Number_toString sample_clock)]))"
    using differ by (simp add: local_id_sample initial_def accept_all_but_def JSON_stringify_def)
  have first: "createEntry new_spot sample_clock (Response True (Some ?saved)) ?w =
      (Inr (with_id new_spot ''local-1700000000000''),
       (fetch (PostEntry new_spot) ?w)
         \<lparr>storage := Some (JSON_stringify [park_walk, with_id new_spot ''local-1700000000000''])\<rparr>)"
    using createLocalEntry_persisted [OF r' yes]
    by (simp add: createEntry_refused [OF r no] local_id_sample)
  have u: "getLocalEntries (initial (Some Malformed) accept_all) = Inl SyntaxError"
    by (simp add: getLocalEntries_cases initial_def)
  have second: "createEntry new_spot sample_clock (Response True (Some ?saved))
       (initial (Some Malformed) accept_all) =
      (Inl SyntaxError, fetch (PostEntry new_spot) (initial (Some Malformed) accept_all))"
    using u by (simp add: createEntry_unreadable createLocalEntry_unreadable)
  show ?thesis
    using differ by (simp add: first second)
qed

text \<open>
  C6, amended: for every entry, every remote answer that is a success carrying the
  entry \<open>saved\<close>, and every state whose mirror is readable with content \<open>xs\<close>
  and whose browser accepts the serialised \<open>xs\<close> with \<open>saved\<close> appended,
  \<open>createEntry\<close> returns \<open>saved\<close> (with the id the remote has assigned), and the
  mirror afterwards holds and reads back as \<open>xs\<close> with \<open>saved\<close> appended: the
  whole mirror is read, extended and written back.
\<close>

theorem C6_create_online_appends_remote_entry:
  assumes "getLocalEntries w = Inr xs" and "accepts w (JSON_stringify (xs @ [saved]))"
  shows "fst (createEntry e now (Response True (Some saved)) w) = Inr saved \<and>
         getLocalEntries (snd (createEntry e now (Response True (Some saved)) w))
           = Inr (xs @ [saved]) \<and>
         storage (snd (createEntry e now (Response True (Some saved)) w))
           = Some (JSON_stringify (xs @ [saved]))"
  using assms by (simp add: createEntry_written)

theorem C6_create_online_appends_remote_entry_witness:
  "getLocalEntries (initial (Some (Serialized [park_walk])) accept_all) = Inr [park_walk] \<and>
   fst (createEntry new_spot sample_clock (Response True (Some (with_id new_spot ''42'')))
          (initial (Some (Serialized [park_walk])) accept_all))
     = Inr (with_id new_spot ''42'') \<and>
   getLocalEntries
     (snd (createEntry new_spot sample_clock (Response True (Some (with_id new_spot ''42'')))
          (initial (Some (Serialized [park_walk])) accept_all)))
     = Inr [park_walk, with_id new_spot ''42''] \<and>
   fst (getEntries Rejected
     (snd (createEntry new_spot sample_clock (Response True (Some (with_id new_spot ''42'')))
          (initial (Some (Serialized [park_walk])) accept_all))))
     = Inr [park_walk, with_id new_spot ''42'']"
  using C6_create_online_appends_remote_entry [of "initial (Some (Serialized [park_walk])) accept_all" "[park_walk]"
      "with_id new_spot ''42''" new_spot sample_clock]
  by (simp add: getLocalEntries_cases initial_def accept_all_def getEntries_fallback
        JSON_stringify_def)

subsection \<open>C7: import, then list while offline\<close>

text \<open>
  C7, as the specification states it: for every collection \<open>xs\<close>, with the remote
  unreachable, \<open>importEntries xs\<close> followed by \<open>getEntries\<close> returns \<open>xs\<close>.
  \<open>importEntries\<close> is a bare \<open>setItem\<close>: when the browser refuses the value it
  raises and the mirror keeps its former content, which is what \<open>getEntries\<close> then
  returns. Below, the mirror holds one entry, another one is imported and refused.
\<close>

theorem C7_import_refused_then_list_counterexample:
  "fst (importEntries [park_walk]
          (initial (Some (Serialized [with_id market ''3''])) accept_none))
     = Inl QuotaExceededError \<and>
   fst (getEntries Rejected
          (snd (importEntries [park_walk]
                  (initial (Some (Serialized [with_id market ''3''])) accept_none))))
     = Inr [with_id market ''3''] \<and>
   [with_id market ''3''] \<noteq> [park_walk]"
proof -
  let ?w = "initial (Some (Serialized [with_id market ''3''])) accept_none"
  have "\<not> accepts ?w (JSON_stringify [park_walk])"
    by (simp add: initial_def accept_none_def)
  then have "importEntries [park_walk] ?w = (Inl QuotaExceededError, ?w)"
    by (rule importEntries_refused)
  moreover have "getLocalEntries ?w = Inr [with_id market ''3'']"
    by (simp add: getLocalEntries_cases initial_def)
  moreover have "[with_id market ''3''] \<noteq> [park_walk]"
    by (simp add: park_walk_def with_id_def)
  ultimately show ?thesis
    by (simp add: getEntries_fallback)
qed

text \<open>
  C7, amended: for every collection \<open>xs\<close>, every state in which the browser accepts
  the serialised \<open>xs\<close> (whatever the mirror held before) and every remote failure,
  \<open>importEntries xs\<close> returns and the \<open>getEntries\<close> that follows returns
  \<open>xs\<close>: the same entries in the same order.
\<close>

theorem C7_import_then_list_roundtrip:
  assumes "accepts w (JSON_stringify xs)" and "remote_failed outcome"
  shows "fst (importEntries xs w) = Inr () \<and>
         fst (getEntries outcome (snd (importEntries xs w))) = Inr xs"
  using assms by (simp add: importEntries_persisted getEntries_fallback)

theorem C7_import_then_list_roundtrip_witness:
  "accepts (initial (Some Malformed) accept_all)
     (JSON_stringify [with_id new_spot ''2'', park_walk, park_walk]) \<and>
   remote_failed (Rejected :: JournalEntry list fetch_outcome) \<and>
   fst (importEntries [with_id new_spot ''2'', park_walk, park_walk]
          (initial (Some Malformed) accept_all)) = Inr () \<and>
   fst (getEntries Rejected
          (snd (importEntries [with_id new_spot ''2'', park_walk, park_walk]
                  (initial (Some Malformed) accept_all))))
     = Inr [with_id new_spot ''2'', park_walk, park_walk]"
  using C7_import_then_list_roundtrip [of "initial (Some Malformed) accept_all"
      "[with_id new_spot ''2'', park_walk, park_walk]" Rejected]
  by (simp add: initial_def accept_all_def)

subsection \<open>C8: import overwrites the mirror and leaves the remote alone\<close>

text \<open>
  C8, as the specification states it: for every collection \<open>xs\<close> and every prior
  state of the mirror, \<open>importEntries xs\<close> leaves the mirror holding exactly
  \<open>xs\<close>. When the browser refuses the value, \<open>importEntries\<close> raises and the
  state is what it was: the mirror still holds its former content.
\<close>

theorem C8_import_refused_counterexample:
  "importEntries [park_walk] (initial (Some (Serialized [with_id market ''3''])) accept_none)
     = (Inl QuotaExceededError, initial (Some (Serialized [with_id market ''3''])) accept_none) \<and>
   getLocalEntries (initial (Some (Serialized [with_id market ''3''])) accept_none)
     = Inr [with_id market ''3''] \<and>
   [with_id market ''3''] \<noteq> [park_walk]"
  by (simp add: importEntries_refused getLocalEntries_cases initial_def accept_none_def
        park_walk_def with_id_def)

text \<open>
  C8, amended: for every collection \<open>xs\<close> and every state, \<open>importEntries xs\<close>
  sends no request to the remote store; and when the browser accepts the serialised
  \<open>xs\<close>, it raises nothing and the mirror afterwards holds and reads back as
  exactly \<open>xs\<close>, whatever it held before.
\<close>

theorem C8_import_overwrites_without_remote:
  "requests (snd (importEntries xs w)) = requests w \<and>
   (accepts w (JSON_stringify xs) \<longrightarrow>
      fst (importEntries xs w) = Inr () \<and>
      getLocalEntries (snd (importEntries xs w)) = Inr xs \<and>
      storage (snd (importEntries xs w)) = Some (JSON_stringify xs))"
  by (cases "accepts w (JSON_stringify xs)")
     (simp_all add: importEntries_persisted importEntries_refused)

theorem C8_import_overwrites_without_remote_witness:
  "accepts (initial (Some (Serialized [with_id market ''3''])) accept_all)
     (JSON_stringify [park_walk]) \<and>
   requests (snd (importEntries [park_walk]
       (initial (Some (Serialized [with_id market ''3''])) accept_all))) = [] \<and>
   getLocalEntries (snd (importEntries [park_walk]
       (initial (Some (Serialized [with_id market ''3''])) accept_all))) = Inr [park_walk]"
  using C8_import_overwrites_without_remote [of "[park_walk]" "initial (Some (Serialized [with_id market ''3''])) accept_all"]
  by (simp add: initial_def accept_all_def)

subsection \<open>C9: the remote accepts the entry and the mirror update fails\<close>

text \<open>
  C9, as stated: when the remote create succeeds and the read or the write of the
  mirror that follows fails, \<open>createEntry\<close> falls into its failure branch and
  mints, persists and returns an entry with a local-origin id. The failure branch
  reads and writes the mirror again, unguarded. When the mirror cannot be read, the
  second read fails like the first and \<open>createEntry\<close> raises (the first fact). When
  the browser refuses the second write too, \<open>createEntry\<close> raises and the mirror
  keeps its former content (the other two facts). In both cases the remote has the
  entry and the caller gets none.
\<close>

theorem C9_create_mirror_failure_counterexample:
  "fst (createEntry market sample_clock (Response True (Some (with_id market ''42'')))
          (initial (Some Malformed) accept_all)) = Inl SyntaxError \<and>
   fst (createEntry market sample_clock (Response True (Some (with_id market ''42'')))
          (initial (Some (Serialized [park_walk])) accept_none)) = Inl QuotaExceededError \<and>
   getLocalEntries
     (snd (createEntry market sample_clock (Response True (Some (with_id market ''42'')))
          (initial (Some (Serialized [park_walk])) accept_none))) = Inr [park_walk]"
proof -
  let ?saved = "with_id market ''42''"
  have u: "getLocalEntries (initial (Some Malformed) accept_all) = Inl SyntaxError"
    by (simp add: getLocalEntries_cases initial_def)
  have first: "createEntry market sample_clock (Response True (Some ?saved))
       (initial (Some Malformed) accept_all) =
      (Inl SyntaxError, fetch (PostEntry market) (initial (Some Malformed) accept_all))"
    using u by (simp add: createEntry_unreadable createLocalEntry_unreadable)
  let ?w = "initial (Some (Serialized [park_walk])) accept_none"
  have r: "getLocalEntries ?w = Inr [park_walk]"
    by (simp add: getLocalEntries_cases initial_def)
  have no: "\<not> accepts ?w v" for v
    by (simp add: initial_def accept_none_def)
  have r': "getLocalEntries (fetch (PostEntry market) ?w) = Inr [park_walk]"
    using r by simp
  have no': "\<not> accepts (fetch (PostEntry market) ?w) v" for v
    using no by simp
  have second: "createEntry market sample_clock (Response True (Some ?saved)) ?w =
      (Inl QuotaExceededError, fetch (PostEntry market) ?w)"
    using createLocalEntry_refused [OF r' no']
    by (simp add: createEntry_refused [OF r no])
  show ?thesis
    using r' by (simp add: first second)
qed

text \<open>
  C9, amended: take a remote create that succeeds with the entry \<open>saved\<close>. When
  the mirror is readable with content \<open>xs\<close> and the browser refuses the serialised
  \<open>xs\<close> with \<open>saved\<close> appended, \<open>createEntry\<close> does what
  \<open>createLocalEntry\<close> does after the request. If the browser accepts \<open>xs\<close> with
  the locally minted entry appended, \<open>createEntry\<close> returns that entry, whose id
  carries the local-origin prefix, and not \<open>saved\<close>; the mirror afterwards holds
  \<open>xs\<close> with the locally minted entry appended; and the create request has been
  sent to the remote. If the browser refuses that value too, \<open>createEntry\<close>
  raises the error of the write and the mirror is unchanged. When the mirror cannot be
  read, \<open>createEntry\<close> takes the same branch, raises the error of the read and
  leaves the mirror unchanged. In the last two cases no entry is returned and none is
  persisted, while the request has been sent.
\<close>

theorem C9_create_mirror_update_fails:
  "(getLocalEntries w = Inl err \<longrightarrow>
      createEntry e now (Response True (Some saved)) w
        = createLocalEntry e now (fetch (PostEntry e) w) \<and>
      createEntry e now (Response True (Some saved)) w = (Inl err, fetch (PostEntry e) w) \<and>
      storage (snd (createEntry e now (Response True (Some saved)) w)) = storage w) \<and>
   (getLocalEntries w = Inr xs \<and> \<not> accepts w (JSON_stringify (xs @ [saved])) \<longrightarrow>
      createEntry e now (Response True (Some saved)) w
        = createLocalEntry e now (fetch (PostEntry e) w) \<and>
      (accepts w (JSON_stringify (xs @ [with_id e (LOCAL_PREFIX @ Number_toString now)])) \<longrightarrow>
         fst (createEntry e now (Response True (Some saved)) w)
           = Inr (with_id e (LOCAL_PREFIX @ Number_toString now)) \<and>
         fst (createEntry e now (Response True (Some saved)) w) \<noteq> Inr saved \<and>
         prefix LOCAL_PREFIX (entry_id (with_id e (LOCAL_PREFIX @ Number_toString now))) \<and>
         getLocalEntries (snd (createEntry e now (Response True (Some saved)) w))
           = Inr (xs @ [with_id e (LOCAL_PREFIX @ Number_toString now)]) \<and>
         requests (snd (createEntry e now (Response True (Some saved)) w))
           = requests w @ [PostEntry e]) \<and>
      (\<not> accepts w (JSON_stringify (xs @ [with_id e (LOCAL_PREFIX @ Number_toString now)])) \<longrightarrow>
         createEntry e now (Response True (Some saved)) w
           = (Inl QuotaExceededError, fetch (PostEntry e) w) \<and>
         storage (snd (createEntry e now (Response True (Some saved)) w)) = storage w))"
proof -
  let ?new = "with_id e (LOCAL_PREFIX @ Number_toString now)"
  let ?call = "createEntry e now (Response True (Some saved)) w"
  let ?w = "fetch (PostEntry e) w"
  have unreadable:
    "?call = createLocalEntry e now ?w \<and> ?call = (Inl err, ?w) \<and>
     storage (snd ?call) = storage w"
    if r: "getLocalEntries w = Inl err"
  proof -
    have branch: "?call = createLocalEntry e now ?w"
      using r by (rule createEntry_unreadable)
    have "getLocalEntries ?w = Inl err"
      using r by simp
    then have "createLocalEntry e now ?w = (Inl err, ?w)"
      by (rule createLocalEntry_unreadable)
    with branch have result: "?call = (Inl err, ?w)"
      by (rule trans)
    have "storage (snd ?call) = storage w"
      by (simp add: result)
    with branch result show ?thesis
      by (intro conjI)
  qed
  have refused:
    "?call = createLocalEntry e now ?w \<and>
     (accepts w (JSON_stringify (xs @ [?new])) \<longrightarrow>
        fst ?call = Inr ?new \<and> fst ?call \<noteq> Inr saved \<and>
        prefix LOCAL_PREFIX (entry_id ?new) \<and>
        getLocalEntries (snd ?call) = Inr (xs @ [?new]) \<and>
        requests (snd ?call) = requests w @ [PostEntry e]) \<and>
     (\<not> accepts w (JSON_stringify (xs @ [?new])) \<longrightarrow>
        ?call = (Inl QuotaExceededError, ?w) \<and> storage (snd ?call) = storage w)"
    if r: "getLocalEntries w = Inr xs" and no: "\<not> accepts w (JSON_stringify (xs @ [saved]))"
  proof -
    have branch: "?call = createLocalEntry e now ?w"
      using r no by (rule createEntry_refused)
    have r': "getLocalEntries ?w = Inr xs"
      using r by simp
    have accepted: "fst ?call = Inr ?new \<and> fst ?call \<noteq> Inr saved \<and>
        prefix LOCAL_PREFIX (entry_id ?new) \<and>
        getLocalEntries (snd ?call) = Inr (xs @ [?new]) \<and>
        requests (snd ?call) = requests w @ [PostEntry e]"
      if yes: "accepts w (JSON_stringify (xs @ [?new]))"
    proof -
      have "accepts ?w (JSON_stringify (xs @ [?new]))"
        using yes by simp
      with r' have "createLocalEntry e now ?w =
          (Inr ?new, ?w\<lparr>storage := Some (JSON_stringify (xs @ [?new]))\<rparr>)"
        by (rule createLocalEntry_persisted)
      with branch have result:
        "?call = (Inr ?new, ?w\<lparr>storage := Some (JSON_stringify (xs @ [?new]))\<rparr>)"
        by (rule trans)
      have "?new \<noteq> saved"
        using no yes by auto
      then show ?thesis
        by (simp add: result)
    qed
    have rejected: "?call = (Inl QuotaExceededError, ?w) \<and> storage (snd ?call) = storage w"
      if no': "\<not> accepts w (JSON_stringify (xs @ [?new]))"
    proof -
      have "\<not> accepts ?w (JSON_stringify (xs @ [?new]))"
        using no' by simp
      with r' have "createLocalEntry e now ?w = (Inl QuotaExceededError, ?w)"
        by (rule createLocalEntry_refused)
      with branch have result: "?call = (Inl QuotaExceededError, ?w)"
        by (rule trans)
      have "storage (snd ?call) = storage w"
        by (simp add: result)
      with result show ?thesis
        by (intro conjI)
    qed
    from branch accepted rejected show ?thesis
      by blast
  qed
  from unreadable refused show ?thesis
    by blast
qed

theorem C9_create_mirror_update_fails_witness:
  "getLocalEntries (initial (Some (Serialized [park_walk]))
       (accept_all_but (Serialized [park_walk, with_id market ''6f9619ff-8b86-d011-b42d-00c04fc964ff''])))
     = Inr [park_walk] \<and>
   fst (createEntry market sample_clock
          (Response True (Some (with_id market ''6f9619ff-8b86-d011-b42d-00c04fc964ff'')))
          (initial (Some (Serialized [park_walk]))
             (accept_all_but
                (Serialized [park_walk, with_id market ''6f9619ff-8b86-d011-b42d-00c04fc964ff'']))))
     = Inr (with_id market ''local-1700000000000'') \<and>
   getLocalEntries
     (snd (createEntry market sample_clock
          (Response True (Some (with_id market ''6f9619ff-8b86-d011-b42d-00c04fc964ff'')))
          (initial (Some (Serialized [park_walk]))
             (accept_all_but
                (Serialized [park_walk, with_id market ''6f9619ff-8b86-d011-b42d-00c04fc964ff''])))))
     = Inr [park_walk, with_id market ''local-1700000000000''] \<and>
   getLocalEntries (initial (Some Malformed) accept_all) = Inl SyntaxError \<and>
   fst (createEntry new_spot sample_clock (Response True (Some (with_id new_spot ''77'')))
          (initial (Some Malformed) accept_all)) = Inl SyntaxError \<and>
   storage (snd (createEntry new_spot sample_clock (Response True (Some (with_id new_spot ''77'')))
          (initial (Some Malformed) accept_all))) = Some Malformed \<and>
   getLocalEntries (initial None accept_none) = Inr [] \<and>
   fst (createEntry new_spot sample_clock (Response True (Some (with_id new_spot ''77'')))
          (initial None accept_none)) = Inl QuotaExceededError \<and>
   storage (snd (createEntry new_spot sample_clock (Response True (Some (with_id new_spot ''77'')))
          (initial None accept_none))) = None"
proof -
  let ?saved = "with_id market ''6f9619ff-8b86-d011-b42d-00c04fc964ff''"
  let ?w = "initial (Some (Serialized [park_walk])) (accept_all_but (Serialized [park_walk, ?saved]))"
  have differ: "with_id market ''local-1700000000000'' \<noteq> ?saved"
    by (rule with_id_neq) simp
  have r: "getLocalEntries ?w = Inr [park_walk]"
    by (simp add: getLocalEntries_cases initial_def)
  have no: "\<not> accepts ?w (JSON_stringify ([park_walk] @ [?saved]))"
    by (simp add: initial_def accept_all_but_def JSON_stringify_def)
  have yes: "accepts ?w
      (JSON_stringify ([park_walk] @ [with_id market (LOCAL_PREFIX @ Number_toString sample_clock)]))"
    using differ by (simp add: local_id_sample initial_def accept_all_but_def JSON_stringify_def)
  have first:
    "fst (createEntry market sample_clock (Response True (Some ?saved)) ?w)
       = Inr (with_id market ''local-1700000000000'') \<and>
     getLocalEntries (snd (createEntry market sample_clock (Response True (Some ?saved)) ?w))
       = Inr [park_walk, with_id market ''local-1700000000000'']"
    using C9_create_mirror_update_fails
        [where w = ?w and xs = "[park_walk]" and saved = ?saved and e = market
           and now = sample_clock, THEN conjunct2, THEN mp, OF conjI [OF r no],
         THEN conjunct2, THEN conjunct1, THEN mp, OF yes]
    by (simp add: local_id_sample)
  let ?s = "with_id new_spot ''77''"
  let ?wb = "initial (Some Malformed) accept_all"
  have rb: "getLocalEntries ?wb = Inl SyntaxError"
    by (simp add: getLocalEntries_cases initial_def)
  have second:
    "fst (createEntry new_spot sample_clock (Response True (Some ?s)) ?wb) = Inl SyntaxError \<and>
     storage (snd (createEntry new_spot sample_clock (Response True (Some ?s)) ?wb))
       = Some Malformed"
    using C9_create_mirror_update_fails
        [where w = ?wb and err = SyntaxError and saved = ?s and e = new_spot
           and now = sample_clock, THEN conjunct1, THEN mp, OF rb, THEN conjunct2]
    by (simp add: initial_def)
  let ?wc = "initial None accept_none"
  have rc: "getLocalEntries ?wc = Inr []"
    by (simp add: getLocalEntries_cases initial_def)
  have noc: "\<not> accepts ?wc v" for v
    by (simp add: initial_def accept_none_def)
  have third:
    "fst (createEntry new_spot sample_clock (Response True (Some ?s)) ?wc)
       = Inl QuotaExceededError \<and>
     storage (snd (createEntry new_spot sample_clock (Response True (Some ?s)) ?wc)) = None"
    using C9_create_mirror_update_fails
        [where w = ?wc and xs = "[]" and saved = ?s and e = new_spot
           and now = sample_clock, THEN conjunct2, THEN mp, OF conjI [OF rc noc],
         THEN conjunct2, THEN conjunct2, THEN mp, OF noc]
    by (simp add: initial_def)
  from r first rb second rc third show ?thesis
    by (intro conjI) simp_all
qed

subsection \<open>C10: deleting removes every entry with the id\<close>

text \<open>
  C10: for every id, every outcome of the remote request (the success path and the
  fallback path alike) and every state whose mirror reads as \<open>xs\<close> and whose
  browser accepts the rewritten value, a single \<open>deleteEntry\<close> leaves in the mirror
  the entries of \<open>xs\<close> with another id: no entry with the given id remains, and as
  many entries have gone as \<open>xs\<close> had with that id. The witness deletes from a
  mirror that \<open>importEntries\<close> has filled with two entries of the same id.
\<close>

theorem C10_delete_removes_all_duplicates:
  assumes "getLocalEntries w = Inr xs"
    and "accepts w (JSON_stringify (filter (\<lambda>e. entry_id e \<noteq> i) xs))"
  shows "fst (deleteEntry i outcome w) = Inr () \<and>
         getLocalEntries (snd (deleteEntry i outcome w))
           = Inr (filter (\<lambda>e. entry_id e \<noteq> i) xs) \<and>
         i \<notin> entry_id ` set (filter (\<lambda>e. entry_id e \<noteq> i) xs) \<and>
         length (filter (\<lambda>e. entry_id e \<noteq> i) xs)
           = length xs - length (filter (\<lambda>e. entry_id e = i) xs)"
proof -
  have "length (filter (\<lambda>e. entry_id e = i) xs) + length (filter (\<lambda>e. entry_id e \<noteq> i) xs)
          = length xs"
    using sum_length_filter_compl [of "\<lambda>e. entry_id e = i" xs] by simp
  then show ?thesis
    using assms by (auto simp add: deleteEntry_persisted)
qed

theorem C10_delete_removes_all_duplicates_witness:
  "fst (deleteEntry ''1'' (Response True (Some ()))
     (snd (importEntries [park_walk, with_id new_spot ''2'', with_id market ''1'']
             (initial None accept_all)))) = Inr () \<and>
   getLocalEntries (snd (deleteEntry ''1'' (Response True (Some ()))
     (snd (importEntries [park_walk, with_id new_spot ''2'', with_id market ''1'']
             (initial None accept_all))))) = Inr [with_id new_spot ''2''] \<and>
   getLocalEntries (snd (deleteEntry ''1'' (Rejected :: unit fetch_outcome)
     (snd (importEntries [park_walk, with_id new_spot ''2'', with_id market ''1'']
             (initial None accept_all))))) = Inr [with_id new_spot ''2'']"
proof -
  let ?xs = "[park_walk, with_id new_spot ''2'', with_id market ''1'']"
  let ?w = "snd (importEntries ?xs (initial None accept_all))"
  have w: "?w = (initial None accept_all)\<lparr>storage := Some (JSON_stringify ?xs)\<rparr>"
    by (simp add: importEntries_persisted initial_def accept_all_def)
  have r: "getLocalEntries ?w = Inr ?xs"
    by (simp add: w)
  have a: "accepts ?w (JSON_stringify (filter (\<lambda>e. entry_id e \<noteq> ''1'') ?xs))"
    by (simp only: w) (simp add: initial_def accept_all_def)
  show ?thesis
    using C10_delete_removes_all_duplicates [OF r a, of "Response True (Some ())"] C10_delete_removes_all_duplicates [OF r a, of "Rejected :: unit fetch_outcome"]
    by (simp add: park_walk_def)
qed

end
